theory Spec2Isabelle
  imports Complex_Main "HOL-Library.AList"
begin

section \<open>Values, exceptions and the process environment\<close>

text \<open>
  The harness of \<^verbatim>\<open>main.py\<close> builds dictionaries of strings, integers and floats and
  dumps them as JSON. A dictionary is an association list in insertion order, as
  Python's \<^verbatim>\<open>dict\<close> is. Floats are modelled by exact rationals: the arithmetic of the
  harness (a difference, a sum, a halving, a division by \<open>2 ^ 20\<close>, a mean) is taken
  without rounding.
\<close>

datatype pyval =
    PStr string
  | PInt int
  | PFloat rat
  | PDict "(string \<times> pyval) list"

type_synonym pydict = "(string \<times> pyval) list"

text \<open>
  Python's handlers in \<^verbatim>\<open>main.py\<close> are all \<^verbatim>\<open>except Exception\<close>: they catch the
  instances of \<^verbatim>\<open>Exception\<close> and let every other \<^verbatim>\<open>BaseException\<close>
  (\<^verbatim>\<open>KeyboardInterrupt\<close>, \<^verbatim>\<open>SystemExit\<close>, ...) pass. An exception carries its
  \<^verbatim>\<open>repr\<close>.
\<close>

datatype exn =
    Exception string
  | BaseOnly string

fun repr :: "exn \<Rightarrow> string" where
  "repr (Exception s) = s"
| "repr (BaseOnly s) = s"

fun is_Exception :: "exn \<Rightarrow> bool" where
  "is_Exception (Exception s) = True"
| "is_Exception (BaseOnly s) = False"

datatype fnode =
    Directory
  | DataFile string
  | JsonFile pyval

text \<open>
  The process environment: the file system, the working directory, the reading of
  \<^verbatim>\<open>time.perf_counter()\<close>, the resident set size read by
  \<^verbatim>\<open>psutil.Process().memory_info().rss\<close>, the bytes a collection pass would release,
  and the number of \<^verbatim>\<open>gc.collect()\<close> passes made so far.

  The file system holds a node under an absolute, normalised path, the list of its
  components from the root. A path string is resolved against the working directory as
  \<^verbatim>\<open>os.path.abspath\<close> does: it is split at \<^verbatim>\<open>/\<close>, empty components and \<^verbatim>\<open>.\<close> are
  dropped, and \<^verbatim>\<open>..\<close> removes the component before it. So \<^verbatim>\<open>bench_results\<close>,
  \<^verbatim>\<open>./bench_results\<close> and \<^verbatim>\<open>./bench_results/\<close> name one node. The root is always
  a directory. Symbolic links, permissions and case folding are not modelled.
\<close>

record world =
  fs :: "string list \<Rightarrow> fnode option"
  cwd :: "string list"
  now :: rat
  rss :: nat
  garbage :: nat
  gc_runs :: nat

type_synonym 'a comp = "world \<Rightarrow> (exn + 'a) \<times> world"

definition gc_collect :: "world \<Rightarrow> world" where
  "gc_collect w = w\<lparr>rss := rss w - garbage w, garbage := 0, gc_runs := gc_runs w + 1\<rparr>"

fun components :: "string \<Rightarrow> string \<Rightarrow> string list" where
  "components cur [] = [cur]"
| "components cur (c # cs) =
     (if c = CHR ''/'' then cur # components [] cs else components (cur @ [c]) cs)"

fun normalise :: "string list \<Rightarrow> string list \<Rightarrow> string list" where
  "normalise stack [] = rev stack"
| "normalise stack (x # xs) =
     (if x = [] \<or> x = ''.'' then normalise stack xs
      else if x = ''..'' then normalise (tl stack) xs
      else normalise (x # stack) xs)"

definition resolve_from :: "string list \<Rightarrow> string \<Rightarrow> string list" where
  "resolve_from dir p =
     normalise (if p \<noteq> [] \<and> hd p = CHR ''/'' then [] else rev dir) (components [] p)"

definition resolve :: "world \<Rightarrow> string \<Rightarrow> string list" where
  "resolve w p = resolve_from (cwd w) p"

definition node :: "world \<Rightarrow> string list \<Rightarrow> fnode option" where
  "node w k = (if k = [] then Some Directory else fs w k)"

text \<open>\<^verbatim>\<open>os.path.exists(p)\<close>: the empty string names nothing.\<close>

definition path_exists :: "string \<Rightarrow> world \<Rightarrow> bool" where
  "path_exists p w = (p \<noteq> [] \<and> node w (resolve w p) \<noteq> None)"

text \<open>\<^verbatim>\<open>Path(p).exists()\<close>: \<^verbatim>\<open>Path("")\<close> is the working directory.\<close>

definition Path_exists :: "string \<Rightarrow> world \<Rightarrow> bool" where
  "Path_exists p w = (node w (resolve w p) \<noteq> None)"

text \<open>
  \<^verbatim>\<open>os.makedirs(p, exist_ok=True)\<close>: the empty string raises; every missing directory
  on the way down to \<open>p\<close> is made; a regular file on the way, or at \<open>p\<close>, raises and
  nothing is made.
\<close>

fun mkdirs ::
  "(string list \<Rightarrow> fnode option) \<Rightarrow> string list \<Rightarrow> string list
     \<Rightarrow> exn + (string list \<Rightarrow> fnode option)" where
  "mkdirs f pre [] = Inr f"
| "mkdirs f pre (c # cs) =
     (case f (pre @ [c]) of
        None \<Rightarrow> mkdirs (f(pre @ [c] \<mapsto> Directory)) (pre @ [c]) cs
      | Some Directory \<Rightarrow> mkdirs f (pre @ [c]) cs
      | Some (DataFile s) \<Rightarrow>
          Inl (Exception (if cs = [] then ''FileExistsError()'' else ''NotADirectoryError()''))
      | Some (JsonFile v) \<Rightarrow>
          Inl (Exception (if cs = [] then ''FileExistsError()'' else ''NotADirectoryError()'')))"

definition os_makedirs :: "string \<Rightarrow> unit comp" where
  "os_makedirs p w =
     (if p = [] then (Inl (Exception ''FileNotFoundError()''), w)
      else case mkdirs (fs w) [] (resolve w p) of
             Inl e \<Rightarrow> (Inl e, w)
           | Inr f \<Rightarrow> (Inr (), w\<lparr>fs := f\<rparr>))"

text \<open>\<^verbatim>\<open>os.remove(p)\<close>: only a regular file can be removed.\<close>

definition os_remove :: "string \<Rightarrow> unit comp" where
  "os_remove p w =
     (if p = [] then (Inl (Exception ''FileNotFoundError()''), w)
      else case node w (resolve w p) of
             None \<Rightarrow> (Inl (Exception ''FileNotFoundError()''), w)
           | Some Directory \<Rightarrow> (Inl (Exception ''IsADirectoryError()''), w)
           | Some (DataFile s) \<Rightarrow> (Inr (), w\<lparr>fs := (fs w)(resolve w p := None)\<rparr>)
           | Some (JsonFile v) \<Rightarrow> (Inr (), w\<lparr>fs := (fs w)(resolve w p := None)\<rparr>))"

text \<open>
  \<^verbatim>\<open>open(p, "w")\<close> and the writing of a content: the directory that is to hold the
  file must exist, and \<open>p\<close> must not be a directory.
\<close>

definition open_write :: "string \<Rightarrow> fnode \<Rightarrow> unit comp" where
  "open_write p content w =
     (if p = [] then (Inl (Exception ''FileNotFoundError()''), w)
      else if resolve w p = [] then (Inl (Exception ''IsADirectoryError()''), w)
      else case node w (butlast (resolve w p)) of
             None \<Rightarrow> (Inl (Exception ''FileNotFoundError()''), w)
           | Some Directory \<Rightarrow>
               (case node w (resolve w p) of
                  Some Directory \<Rightarrow> (Inl (Exception ''IsADirectoryError()''), w)
                | _ \<Rightarrow> (Inr (), w\<lparr>fs := (fs w)(resolve w p \<mapsto> content)\<rparr>))
           | Some (DataFile s) \<Rightarrow> (Inl (Exception ''NotADirectoryError()''), w)
           | Some (JsonFile v) \<Rightarrow> (Inl (Exception ''NotADirectoryError()''), w))"

text \<open>
  \<^verbatim>\<open>with open(p, "w", encoding="utf-8") as fh: json.dump(v, fh, ...)\<close>: the file then
  holds the document \<open>v\<close>.
\<close>

definition write_json :: "string \<Rightarrow> pyval \<Rightarrow> unit comp" where
  "write_json p v = open_write p (JsonFile v)"

definition os_path_join :: "string \<Rightarrow> string \<Rightarrow> string" where
  "os_path_join a b =
     (if b \<noteq> [] \<and> hd b = CHR ''/'' then b
      else if a = [] \<or> last a = CHR ''/'' then a @ b
      else a @ ''/'' @ b)"

text \<open>The decimal text of a loop index, as an f-string formats it.\<close>

definition digit_char :: "nat \<Rightarrow> char" where
  "digit_char d = ''0123456789'' ! d"

function str_nat :: "nat \<Rightarrow> string" where
  "str_nat n = (if n < 10 then [digit_char n] else str_nat (n div 10) @ [digit_char (n mod 10)])"
  by pat_completeness auto
termination
  by (relation "measure (\<lambda>n. n)") auto

declare str_nat.simps [simp del]

section \<open>The measurement primitive\<close>

text \<open>
  \<^verbatim>\<open>measure(func)\<close>: both probes are read before the work and after it; the work's
  exception is not caught, so nothing after the call runs when it raises.
\<close>

definition measure_py :: "'a comp \<Rightarrow> ('a \<times> rat \<times> rat) comp" where
  "measure_py func w =
     (let mem0 = rss w;
          t0 = now w
      in case func w of
           (Inl e, w1) \<Rightarrow> (Inl e, w1)
         | (Inr res, w1) \<Rightarrow>
             (let t1 = now w1;
                  mem1 = rss w1;
                  elapsed = t1 - t0;
                  avg_mem = (of_nat (mem0 + mem1) / 2) / (1024 * 1024)
              in (Inr (res, elapsed, avg_mem), gc_collect w1)))"

section \<open>The backend adapters\<close>

text \<open>
  The calls into pandas, polars and dask are the environment of the harness: each is
  a computation on the world that returns a value or raises.
\<close>

record ('pdf, 'plf, 'ddf) api =
  pd_read_csv :: "string \<Rightarrow> string \<Rightarrow> string \<Rightarrow> 'pdf comp"
  pd_to_csv :: "'pdf \<Rightarrow> string \<Rightarrow> string option \<Rightarrow> unit comp"
  pl_read_csv :: "string \<Rightarrow> string \<Rightarrow> string \<Rightarrow> 'plf comp"
  pl_write_csv :: "'plf \<Rightarrow> string \<Rightarrow> unit comp"
  dd_read_csv :: "string \<Rightarrow> string \<Rightarrow> string \<Rightarrow> 'ddf comp"
  dd_compute :: "'ddf \<Rightarrow> 'pdf comp"

definition trial_sample :: "rat \<Rightarrow> rat \<Rightarrow> rat \<Rightarrow> rat \<Rightarrow> pydict" where
  "trial_sample t_read t_write mem_read mem_write =
     [(''read_time_s'', PFloat t_read),
      (''write_time_s'', PFloat t_write),
      (''read_mem_mb'', PFloat mem_read),
      (''write_mem_mb'', PFloat mem_write)]"

definition trial_failure :: "string \<Rightarrow> pydict" where
  "trial_failure s = [(''error'', PStr s)]"

text \<open>\<^verbatim>\<open>except Exception as e: return {"error": repr(e)}\<close>\<close>

fun except_Exception :: "exn \<Rightarrow> pydict comp" where
  "except_Exception (Exception s) w = (Inr (trial_failure s), w)"
| "except_Exception (BaseOnly s) w = (Inl (BaseOnly s), w)"

text \<open>The lambda \<^verbatim>\<open>lambda: (read(...), sep)\<close> pairs the frame with the separator.\<close>

definition with_sep :: "'a comp \<Rightarrow> string \<Rightarrow> ('a \<times> string) comp" where
  "with_sep rd sep w =
     (case rd w of (Inl e, w1) \<Rightarrow> (Inl e, w1) | (Inr df, w1) \<Rightarrow> (Inr (df, sep), w1))"

definition read_write_pandas ::
  "('pdf, 'plf, 'ddf) api \<Rightarrow> string \<Rightarrow> string \<Rightarrow> string \<Rightarrow> string \<Rightarrow> pydict comp" where
  "read_write_pandas lib path out_tmp encoding sep w =
     (case measure_py (with_sep (pd_read_csv lib path sep encoding) sep) w of
        (Inl e, w1) \<Rightarrow> except_Exception e w1
      | (Inr ((df, _), t_read, mem_read), w1) \<Rightarrow>
          (case measure_py (pd_to_csv lib df out_tmp (Some encoding)) w1 of
             (Inl e, w2) \<Rightarrow> except_Exception e w2
           | (Inr (_, t_write, mem_write), w2) \<Rightarrow>
               (Inr (trial_sample t_read t_write mem_read mem_write), w2)))"

definition read_write_polars ::
  "('pdf, 'plf, 'ddf) api \<Rightarrow> string \<Rightarrow> string \<Rightarrow> string \<Rightarrow> string \<Rightarrow> pydict comp" where
  "read_write_polars lib path out_tmp encoding sep w =
     (case measure_py (with_sep (pl_read_csv lib path sep encoding) sep) w of
        (Inl e, w1) \<Rightarrow> except_Exception e w1
      | (Inr ((df, _), t_read, mem_read), w1) \<Rightarrow>
          (case measure_py (pl_write_csv lib df out_tmp) w1 of
             (Inl e, w2) \<Rightarrow> except_Exception e w2
           | (Inr (_, t_write, mem_write), w2) \<Rightarrow>
               (Inr (trial_sample t_read t_write mem_read mem_write), w2)))"

definition read_write_dask ::
  "('pdf, 'plf, 'ddf) api \<Rightarrow> string \<Rightarrow> string \<Rightarrow> string \<Rightarrow> string \<Rightarrow> pydict comp" where
  "read_write_dask lib path out_tmp encoding sep w =
     (case measure_py (with_sep (dd_read_csv lib path sep encoding) sep) w of
        (Inl e, w1) \<Rightarrow> except_Exception e w1
      | (Inr ((ddf, _), t_read_lazy, mem_read_lazy), w1) \<Rightarrow>
          (case measure_py (dd_compute lib ddf) w1 of
             (Inl e, w2) \<Rightarrow> except_Exception e w2
           | (Inr (pdf, t_compute, mem_compute), w2) \<Rightarrow>
               (case measure_py (pd_to_csv lib pdf out_tmp None) w2 of
                  (Inl e, w3) \<Rightarrow> except_Exception e w3
                | (Inr (_, t_write, mem_write), w3) \<Rightarrow>
                    (Inr (trial_sample (t_read_lazy + t_compute) t_write
                            (max mem_read_lazy mem_compute) mem_write), w3))))"

section \<open>Aggregation\<close>

definition bind_exn :: "exn + 'a \<Rightarrow> ('a \<Rightarrow> exn + 'b) \<Rightarrow> exn + 'b" where
  "bind_exn x f = (case x of Inl e \<Rightarrow> Inl e | Inr v \<Rightarrow> f v)"

text \<open>\<^verbatim>\<open>d[k]\<close> raises \<^verbatim>\<open>KeyError\<close> for a missing key.\<close>

definition getitem :: "pydict \<Rightarrow> string \<Rightarrow> exn + pyval" where
  "getitem d k =
     (case map_of d k of
        None \<Rightarrow> Inl (Exception (''KeyError('' @ k @ '')''))
      | Some v \<Rightarrow> Inr v)"

text \<open>The comprehension \<^verbatim>\<open>[r[k] for r in rs]\<close>.\<close>

fun column :: "string \<Rightarrow> pydict list \<Rightarrow> exn + pyval list" where
  "column k [] = Inr []"
| "column k (r # rs) =
     bind_exn (getitem r k) (\<lambda>v. bind_exn (column k rs) (\<lambda>vs. Inr (v # vs)))"

fun num_of :: "pyval \<Rightarrow> rat option" where
  "num_of (PFloat x) = Some x"
| "num_of (PInt i) = Some (of_int i)"
| "num_of (PStr s) = None"
| "num_of (PDict d) = None"

fun is_PInt :: "pyval \<Rightarrow> bool" where
  "is_PInt (PInt i) = True"
| "is_PInt (PStr s) = False"
| "is_PInt (PFloat x) = False"
| "is_PInt (PDict d) = False"

fun numbers :: "pyval list \<Rightarrow> rat list option" where
  "numbers [] = Some []"
| "numbers (x # xs) =
     (case num_of x of
        None \<Rightarrow> None
      | Some v \<Rightarrow> (case numbers xs of None \<Rightarrow> None | Some vs \<Rightarrow> Some (v # vs)))"

text \<open>
  \<^verbatim>\<open>statistics.mean\<close>: no data raises \<^verbatim>\<open>StatisticsError\<close>, a value that is not a
  number raises \<^verbatim>\<open>TypeError\<close>; the mean of integers stays an integer when it is one.
\<close>

definition statistics_mean :: "pyval list \<Rightarrow> exn + pyval" where
  "statistics_mean xs =
     (if xs = [] then Inl (Exception ''StatisticsError()'')
      else case numbers xs of
             None \<Rightarrow> Inl (Exception ''TypeError()'')
           | Some vs \<Rightarrow>
               (let q = sum_list vs / of_nat (length vs)
                in if list_all is_PInt xs \<and> q = of_int \<lfloor>q\<rfloor> then Inr (PInt \<lfloor>q\<rfloor>)
                   else Inr (PFloat q)))"

text \<open>Lines 74 to 90 of \<^verbatim>\<open>main\<close>: the summary of one backend's trials.\<close>

definition summarize :: "pydict list \<Rightarrow> exn + pydict" where
  "summarize runs_data =
     (let successful_runs = filter (\<lambda>r. map_of r ''error'' = None) runs_data
      in if successful_runs \<noteq> [] then
           bind_exn (column ''read_time_s'' successful_runs) (\<lambda>read_times.
           bind_exn (column ''write_time_s'' successful_runs) (\<lambda>write_times.
           bind_exn (column ''read_mem_mb'' successful_runs) (\<lambda>read_mems.
           bind_exn (column ''write_mem_mb'' successful_runs) (\<lambda>write_mems.
           bind_exn (statistics_mean read_times) (\<lambda>m_rt.
           bind_exn (statistics_mean write_times) (\<lambda>m_wt.
           bind_exn (statistics_mean read_mems) (\<lambda>m_rm.
           bind_exn (statistics_mean write_mems) (\<lambda>m_wm.
             Inr [(''read_time_s'', m_rt),
                  (''write_time_s'', m_wt),
                  (''read_mem_mb'', m_rm),
                  (''write_mem_mb'', m_wm),
                  (''runs_used'', PInt (int (length successful_runs)))]))))))))
         else Inr [(''error'', PStr ''all runs failed'')])"

section \<open>The trial loop and \<^verbatim>\<open>main\<close>\<close>

record config =
  input_path :: string
  outdir :: string
  encoding :: string
  runs :: int
  sep :: string

type_synonym lib_func = "string \<Rightarrow> string \<Rightarrow> string \<Rightarrow> string \<Rightarrow> pydict comp"

text \<open>Lines 67 to 71: the removal of the temp file, its \<^verbatim>\<open>Exception\<close>s swallowed.\<close>

definition cleanup :: "string \<Rightarrow> unit comp" where
  "cleanup temp_out w =
     (if path_exists temp_out w then
        (case os_remove temp_out w of
           (Inr u, w1) \<Rightarrow> (Inr (), w1)
         | (Inl e, w1) \<Rightarrow> (if is_Exception e then (Inr (), w1) else (Inl e, w1)))
      else (Inr (), w))"

definition temp_name :: "string \<Rightarrow> string \<Rightarrow> nat \<Rightarrow> string" where
  "temp_name out lib_name i =
     os_path_join out (''tmp_'' @ lib_name @ ''_'' @ str_nat i @ ''.csv'')"

text \<open>Lines 58 to 71: one pass of the inner loop; the result is the outcome appended.\<close>

definition run_trial :: "string \<Rightarrow> lib_func \<Rightarrow> config \<Rightarrow> nat \<Rightarrow> pydict comp" where
  "run_trial lib_name lib_func cfg i w =
     (let temp_out = temp_name (outdir cfg) lib_name i
      in case lib_func (input_path cfg) temp_out (encoding cfg) (sep cfg) w of
           (Inr res, w1) \<Rightarrow>
             (case cleanup temp_out w1 of
                (Inl e, w2) \<Rightarrow> (Inl e, w2)
              | (Inr u, w2) \<Rightarrow> (Inr res, w2))
         | (Inl e, w1) \<Rightarrow>
             (if is_Exception e then
                (case cleanup temp_out w1 of
                   (Inl e', w2) \<Rightarrow> (Inl e', w2)
                 | (Inr u, w2) \<Rightarrow> (Inr (trial_failure (repr e)), w2))
              else (Inl e, w1)))"

fun run_trials ::
  "string \<Rightarrow> lib_func \<Rightarrow> config \<Rightarrow> nat list \<Rightarrow> pydict list \<Rightarrow> pydict list comp" where
  "run_trials lib_name lib_func cfg [] runs_data w = (Inr runs_data, w)"
| "run_trials lib_name lib_func cfg (i # is) runs_data w =
     (case run_trial lib_name lib_func cfg i w of
        (Inl e, w1) \<Rightarrow> (Inl e, w1)
      | (Inr r, w1) \<Rightarrow> run_trials lib_name lib_func cfg is (runs_data @ [r]) w1)"

text \<open>\<^verbatim>\<open>range(max(1, runs))\<close>\<close>

definition trial_range :: "config \<Rightarrow> nat list" where
  "trial_range cfg = [0 ..< nat (max 1 (runs cfg))]"

text \<open>\<^verbatim>\<open>results["libs"][lib_name] = summary\<close>\<close>

definition set_lib :: "pydict \<Rightarrow> string \<Rightarrow> pydict \<Rightarrow> exn + pydict" where
  "set_lib results lib_name summary =
     (case map_of results ''libs'' of
        None \<Rightarrow> Inl (Exception ''KeyError(libs)'')
      | Some (PDict libs) \<Rightarrow>
          Inr (AList.update ''libs''
                 (PDict (AList.update lib_name (PDict summary) libs)) results)
      | Some _ \<Rightarrow> Inl (Exception ''TypeError()''))"

fun bench_libs :: "(string \<times> lib_func) list \<Rightarrow> config \<Rightarrow> pydict \<Rightarrow> pydict comp" where
  "bench_libs [] cfg results w = (Inr results, w)"
| "bench_libs ((lib_name, lib_func) # rest) cfg results w =
     (case run_trials lib_name lib_func cfg (trial_range cfg) [] w of
        (Inl e, w1) \<Rightarrow> (Inl e, w1)
      | (Inr runs_data, w1) \<Rightarrow>
          (case bind_exn (summarize runs_data) (set_lib results lib_name) of
             Inl e \<Rightarrow> (Inl e, w1)
           | Inr results' \<Rightarrow> bench_libs rest cfg results' w1))"

definition result_filename :: "config \<Rightarrow> string" where
  "result_filename cfg = os_path_join (outdir cfg) ''bench_result.json''"

definition error_report :: "config \<Rightarrow> pyval" where
  "error_report cfg =
     PDict [(''error'', PStr ''input file not found''), (''input'', PStr (input_path cfg))]"

definition libs_of :: "('pdf, 'plf, 'ddf) api \<Rightarrow> (string \<times> lib_func) list" where
  "libs_of lib =
     [(''pandas'', read_write_pandas lib),
      (''polars'', read_write_polars lib),
      (''dask'', read_write_dask lib)]"

text \<open>
  The body of \<^verbatim>\<open>main\<close>, with its five local settings gathered in a \<open>config\<close>; the
  value returned is the exit status.
\<close>

definition main_with :: "('pdf, 'plf, 'ddf) api \<Rightarrow> config \<Rightarrow> int comp" where
  "main_with lib cfg w =
     (case os_makedirs (outdir cfg) w of
        (Inl e, w1) \<Rightarrow> (Inl e, w1)
      | (Inr u, w1) \<Rightarrow>
          (if \<not> Path_exists (input_path cfg) w1 then
             (case write_json (result_filename cfg) (error_report cfg) w1 of
                (Inl e, w2) \<Rightarrow> (Inl e, w2)
              | (Inr u', w2) \<Rightarrow> (Inr 2, w2))
           else
             (let results =
                    [(''input'', PStr (input_path cfg)),
                     (''runs'', PInt (runs cfg)),
                     (''separator'', PStr (sep cfg)),
                     (''libs'', PDict [])]
              in case bench_libs (libs_of lib) cfg results w1 of
                   (Inl e, w2) \<Rightarrow> (Inl e, w2)
                 | (Inr results', w2) \<Rightarrow>
                     (case write_json (result_filename cfg) (PDict results') w2 of
                        (Inl e, w3) \<Rightarrow> (Inl e, w3)
                      | (Inr u', w3) \<Rightarrow> (Inr 0, w3)))))"

definition settings :: config where
  "settings =
     \<lparr>input_path = ''StudentsPerformance.csv'',
      outdir = ''./bench_results'',
      encoding = ''utf-8'',
      runs = 1000,
      sep = '',''\<rparr>"


section \<open>Trial outcomes as a tagged union\<close>

text \<open>
  The two dictionaries an adapter returns, read as one value: \<open>encode\<close> gives back the
  dictionary. \<open>mean_of\<close> is the arithmetic mean.
\<close>

datatype outcome =
    Sample (read_time: rat) (write_time: rat) (read_mem: rat) (write_mem: rat)
  | Failure (descr: string)

fun encode :: "outcome \<Rightarrow> pydict" where
  "encode (Sample a b c d) = trial_sample a b c d"
| "encode (Failure s) = trial_failure s"

definition mean_of :: "rat list \<Rightarrow> rat" where
  "mean_of xs = sum_list xs / of_nat (length xs)"

section \<open>Library doubles and sample environments\<close>

text \<open>
  A stand-in for the three libraries: a read returns the text of a data file and raises
  when there is none, a write stores the text as \<open>open_write\<close> does; each call that
  returns advances the clock, and dask's \<^verbatim>\<open>compute\<close> grows the resident set by 60 MiB.
\<close>

definition stub_read :: "rat \<Rightarrow> nat \<Rightarrow> string \<Rightarrow> string comp" where
  "stub_read dt grow path w =
     (case node w (resolve w path) of
        None \<Rightarrow> (Inl (Exception ''FileNotFoundError()''), w)
      | Some Directory \<Rightarrow> (Inl (Exception ''IsADirectoryError()''), w)
      | Some (DataFile s) \<Rightarrow> (Inr s, w\<lparr>now := now w + dt, rss := rss w + grow\<rparr>)
      | Some (JsonFile v) \<Rightarrow> (Inl (Exception ''ParserError()''), w))"

definition stub_write :: "rat \<Rightarrow> string \<Rightarrow> string \<Rightarrow> unit comp" where
  "stub_write dt s path w =
     (case open_write path (DataFile s) w of
        (Inl e, w1) \<Rightarrow> (Inl e, w1)
      | (Inr u, w1) \<Rightarrow> (Inr (), w1\<lparr>now := now w1 + dt\<rparr>))"

definition stub_api :: "(string, string, string) api" where
  "stub_api =
     \<lparr>pd_read_csv = (\<lambda>p s e. stub_read 1 0 p),
      pd_to_csv = (\<lambda>df p e. stub_write 2 df p),
      pl_read_csv = (\<lambda>p s e. stub_read (1 / 4) 0 p),
      pl_write_csv = (\<lambda>df p. stub_write (1 / 2) df p),
      dd_read_csv = (\<lambda>p s e. stub_read (1 / 8) 0 p),
      dd_compute = (\<lambda>ddf w. (Inr ddf, w\<lparr>now := now w + 1, rss := rss w + 62914560\<rparr>))\<rparr>"

text \<open>
  Sample worlds, all with the working directory \<^verbatim>\<open>/srv\<close>: an empty one; one with
  the data file; one with the data file and the output directory; one where the first
  temp path of pandas is a directory; one where the input path is a directory. And a
  library whose pandas read is interrupted.
\<close>

definition idle_world :: world where
  "idle_world =
     \<lparr>fs = [[''srv''] \<mapsto> Directory], cwd = [''srv''],
      now = 0, rss = 52428800, garbage = 0, gc_runs = 0\<rparr>"

definition data_world :: world where
  "data_world =
     idle_world\<lparr>fs := [[''srv''] \<mapsto> Directory,
                        [''srv'', ''StudentsPerformance.csv''] \<mapsto> DataFile ''a,b'']\<rparr>"

definition ready_world :: world where
  "ready_world =
     idle_world\<lparr>fs := [[''srv''] \<mapsto> Directory,
                        [''srv'', ''StudentsPerformance.csv''] \<mapsto> DataFile ''a,b'',
                        [''srv'', ''bench_results''] \<mapsto> Directory]\<rparr>"

definition blocked_world :: world where
  "blocked_world =
     idle_world\<lparr>fs := [[''srv''] \<mapsto> Directory,
                        [''srv'', ''StudentsPerformance.csv''] \<mapsto> DataFile ''a,b'',
                        [''srv'', ''bench_results''] \<mapsto> Directory,
                        [''srv'', ''bench_results'', ''tmp_pandas_0.csv''] \<mapsto> Directory]\<rparr>"

definition unreadable_world :: world where
  "unreadable_world =
     idle_world\<lparr>fs := [[''srv''] \<mapsto> Directory,
                        [''srv'', ''StudentsPerformance.csv''] \<mapsto> Directory]\<rparr>"



section \<open>Predicates on outcomes and libraries\<close>





definition anything :: "world \<Rightarrow> bool" where
  "anything w = True"

definition polite :: "(world \<Rightarrow> bool) \<Rightarrow> 'a comp \<Rightarrow> bool" where
  "polite I c =
     (\<forall>w. (case fst (c w) of Inl e \<Rightarrow> is_Exception e | Inr v \<Rightarrow> True)
          \<and> (I w \<longrightarrow> I (snd (c w))))"

definition tame :: "(world \<Rightarrow> bool) \<Rightarrow> ('pdf, 'plf, 'ddf) api \<Rightarrow> bool" where
  "tame I lib =
     ((\<forall>a s e. polite I (pd_read_csv lib a s e))
      \<and> (\<forall>df a e. polite I (pd_to_csv lib df a e))
      \<and> (\<forall>a s e. polite I (pl_read_csv lib a s e))
      \<and> (\<forall>df a. polite I (pl_write_csv lib df a))
      \<and> (\<forall>a s e. polite I (dd_read_csv lib a s e))
      \<and> (\<forall>df. polite I (dd_compute lib df)))"

definition steady :: "(world \<Rightarrow> bool) \<Rightarrow> lib_func \<Rightarrow> bool" where
  "steady I f =
     (\<forall>a b c d w. (\<exists>x. fst (f a b c d w) = Inr (encode x))
        \<and> (I w \<longrightarrow> I (snd (f a b c d w))))"

definition stable :: "(world \<Rightarrow> bool) \<Rightarrow> bool" where
  "stable I =
     (\<forall>w. I w \<longrightarrow> I (gc_collect w) \<and> (\<forall>p. I (snd (cleanup p w))))"

definition backend_summary ::
  "string \<Rightarrow> lib_func \<Rightarrow> config \<Rightarrow> world \<Rightarrow> pydict \<Rightarrow> world \<Rightarrow> bool" where
  "backend_summary lib_name f cfg w s w' =
     (\<exists>runs_data. run_trials lib_name f cfg (trial_range cfg) [] w = (Inr runs_data, w')
        \<and> length runs_data = nat (max 1 (runs cfg))
        \<and> summarize runs_data = Inr s)"

section \<open>Paths\<close>

lemma resolve_samples:
  "resolve_from [''srv''] ''StudentsPerformance.csv'' = [''srv'', ''StudentsPerformance.csv'']"
  "resolve_from [''srv''] ''./bench_results'' = [''srv'', ''bench_results'']"
  "resolve_from [''srv''] ''bench_results'' = [''srv'', ''bench_results'']"
  "resolve_from [''srv''] ''./bench_results/bench_result.json''
     = [''srv'', ''bench_results'', ''bench_result.json'']"
  "resolve_from [''srv''] ''./bench_results/tmp_pandas_0.csv''
     = [''srv'', ''bench_results'', ''tmp_pandas_0.csv'']"
  "resolve_from [''srv''] ''./bench_results/tmp_pandas_1.csv''
     = [''srv'', ''bench_results'', ''tmp_pandas_1.csv'']"
  "resolve_from [''srv''] ''./bench_results/tmp_polars_0.csv''
     = [''srv'', ''bench_results'', ''tmp_polars_0.csv'']"
  "resolve_from [''srv''] ''./bench_results/tmp_polars_1.csv''
     = [''srv'', ''bench_results'', ''tmp_polars_1.csv'']"
  "resolve_from [''srv''] ''./bench_results/tmp_dask_0.csv''
     = [''srv'', ''bench_results'', ''tmp_dask_0.csv'']"
  "resolve_from [''srv''] ''./bench_results/tmp_dask_1.csv''
     = [''srv'', ''bench_results'', ''tmp_dask_1.csv'']"
  by (simp_all add: resolve_from_def)

lemmas fs_defs =
  resolve_def resolve_samples node_def open_write_def os_remove_def path_exists_def

section \<open>The measurement primitive: properties\<close>

lemma cleanup_keeps_memory:
  "rss (snd (cleanup p w)) = rss w \<and> garbage (snd (cleanup p w)) = garbage w
     \<and> gc_runs (snd (cleanup p w)) = gc_runs w \<and> now (snd (cleanup p w)) = now w"
  by (auto simp: cleanup_def os_remove_def split: option.splits fnode.splits)

lemma cleanup_returns: "fst (cleanup p w) = Inr ()"
  by (auto simp: cleanup_def os_remove_def split: option.splits fnode.splits)

lemma cleanup_keeps_cwd: "cwd (snd (cleanup p w)) = cwd w"
  by (auto simp: cleanup_def os_remove_def split: option.splits fnode.splits)

text \<open>
  C6: when the wrapped work returns, \<^verbatim>\<open>measure\<close> returns the work's own result, and its
  memory figure is \<open>(mem_before + mem_after) / 2 / 1048576\<close>, which is not negative; the
  world it leaves is the one a single run of the work from the initial world leaves,
  after one collection pass.
\<close>

theorem measure_py_memory_figure:
  assumes "func w = (Inr res, w1)"
  shows "measure_py func w =
           (Inr (res, now w1 - now w, (of_nat (rss w) + of_nat (rss w1)) / 2 / 1048576),
            gc_collect w1)
         \<and> (0::rat) \<le> (of_nat (rss w) + of_nat (rss w1)) / 2 / 1048576"
  using assms by (simp add: measure_py_def)

theorem measure_py_memory_figure_witness:
  "measure_py (\<lambda>w. (Inr (7::nat), w\<lparr>now := 3, rss := 115343360\<rparr>)) idle_world =
     (Inr (7, 3, 80), gc_collect (idle_world\<lparr>now := 3, rss := 115343360\<rparr>))"
  using measure_py_memory_figure
    [of "\<lambda>w. (Inr (7::nat), w\<lparr>now := 3, rss := 115343360\<rparr>)" idle_world 7
        "idle_world\<lparr>now := 3, rss := 115343360\<rparr>"]
  by (simp add: idle_world_def)

text \<open>
  C9: when the wrapped work raises, \<^verbatim>\<open>measure\<close> hands the exception on and leaves the
  world as the work left it, with no collection pass; the pass is made on the success
  path only. So a pandas trial whose read raises is recorded as a failure, and the next
  trial starts from the pass count and the resident set the failing read left.
\<close>

theorem measure_py_raise_skips_gc:
  "(func w = (Inl e, w1) \<longrightarrow> measure_py func w = (Inl e, w1))
   \<and> (func w = (Inr res, w1) \<longrightarrow>
        gc_runs (snd (measure_py func w)) = gc_runs w1 + 1)
   \<and> (pd_read_csv lib (input_path cfg) (sep cfg) (encoding cfg) w = (Inl (Exception s), w1) \<longrightarrow>
        fst (run_trial ''pandas'' (read_write_pandas lib) cfg i w) = Inr (trial_failure s)
        \<and> gc_runs (snd (run_trial ''pandas'' (read_write_pandas lib) cfg i w)) = gc_runs w1
        \<and> rss (snd (run_trial ''pandas'' (read_write_pandas lib) cfg i w)) = rss w1)"
proof (intro conjI impI)
  assume "func w = (Inl e, w1)"
  then show "measure_py func w = (Inl e, w1)"
    by (simp add: measure_py_def)
next
  assume "func w = (Inr res, w1)"
  then show "gc_runs (snd (measure_py func w)) = gc_runs w1 + 1"
    by (simp add: measure_py_def gc_collect_def)
next
  assume rd: "pd_read_csv lib (input_path cfg) (sep cfg) (encoding cfg) w = (Inl (Exception s), w1)"
  let ?tmp = "temp_name (outdir cfg) ''pandas'' i"
  have rw: "read_write_pandas lib (input_path cfg) ?tmp (encoding cfg) (sep cfg) w
              = (Inr (trial_failure s), w1)"
    using rd by (simp add: read_write_pandas_def measure_py_def with_sep_def)
  obtain w2 where cl: "cleanup ?tmp w1 = (Inr (), w2)"
    using cleanup_returns [of ?tmp w1] by (cases "cleanup ?tmp w1") auto
  have rt: "run_trial ''pandas'' (read_write_pandas lib) cfg i w = (Inr (trial_failure s), w2)"
    using rw cl by (simp add: run_trial_def)
  have mem: "gc_runs w2 = gc_runs w1 \<and> rss w2 = rss w1"
    using cleanup_keeps_memory [of ?tmp w1] cl by simp
  show "fst (run_trial ''pandas'' (read_write_pandas lib) cfg i w) = Inr (trial_failure s)"
    using rt by simp
  show "gc_runs (snd (run_trial ''pandas'' (read_write_pandas lib) cfg i w)) = gc_runs w1"
    using rt mem by simp
  show "rss (snd (run_trial ''pandas'' (read_write_pandas lib) cfg i w)) = rss w1"
    using rt mem by simp
qed

theorem measure_py_raise_skips_gc_witness:
  "measure_py (pd_read_csv stub_api ''StudentsPerformance.csv'' '','' ''utf-8'') idle_world
     = (Inl (Exception ''FileNotFoundError()''), idle_world)
   \<and> gc_runs (snd (measure_py (pd_read_csv stub_api ''StudentsPerformance.csv'' '','' ''utf-8'')
        data_world)) = 1
   \<and> fst (run_trial ''pandas'' (read_write_pandas stub_api) settings 0 idle_world)
        = Inr (trial_failure ''FileNotFoundError()'')
   \<and> gc_runs (snd (run_trial ''pandas'' (read_write_pandas stub_api) settings 0 idle_world)) = 0"
  using measure_py_raise_skips_gc
    [of "pd_read_csv stub_api ''StudentsPerformance.csv'' '','' ''utf-8''" idle_world
        "Exception ''FileNotFoundError()''" idle_world "''a,b''" stub_api settings
        "''FileNotFoundError()''" 0]
    measure_py_raise_skips_gc
    [of "pd_read_csv stub_api ''StudentsPerformance.csv'' '','' ''utf-8''" data_world
        "Exception ''FileNotFoundError()''" "data_world\<lparr>now := 1\<rparr>" "''a,b''" stub_api settings
        "''FileNotFoundError()''" 0]
  by (simp add: stub_api_def stub_read_def idle_world_def data_world_def settings_def fs_defs)

section \<open>The lazy backend\<close>

text \<open>
  C7: for dask, \<^verbatim>\<open>read_time_s\<close> is the sum of the time of the lazy build and the time of
  the materialization, and \<^verbatim>\<open>read_mem_mb\<close> is the maximum of their two memory figures;
  figures of 50 and 80 give 80.
\<close>

theorem dask_read_metrics:
  assumes "measure_py (with_sep (dd_read_csv lib path sp enc) sp) w
             = (Inr ((ddf, s), t_read_lazy, mem_read_lazy), w1)"
    and "measure_py (dd_compute lib ddf) w1 = (Inr (pdf, t_compute, mem_compute), w2)"
    and "measure_py (pd_to_csv lib pdf out_tmp None) w2 = (Inr (u, t_write, mem_write), w3)"
  shows "fst (read_write_dask lib path out_tmp enc sp w)
           = Inr [(''read_time_s'', PFloat (t_read_lazy + t_compute)),
                  (''write_time_s'', PFloat t_write),
                  (''read_mem_mb'', PFloat (max mem_read_lazy mem_compute)),
                  (''write_mem_mb'', PFloat mem_write)]"
  using assms by (simp add: read_write_dask_def trial_sample_def)

lemma dask_stub_steps:
  "measure_py (with_sep (dd_read_csv stub_api ''StudentsPerformance.csv'' '','' ''utf-8'') '','')
       ready_world
     = (Inr ((''a,b'', '',''), 1 / 8, 50), gc_collect (ready_world\<lparr>now := 1 / 8\<rparr>))"
  "measure_py (dd_compute stub_api ''a,b'') (gc_collect (ready_world\<lparr>now := 1 / 8\<rparr>))
     = (Inr (''a,b'', 1, 80),
        gc_collect (gc_collect (ready_world\<lparr>now := 1 / 8\<rparr>)\<lparr>now := 9 / 8, rss := 115343360\<rparr>))"
  by (simp_all add: measure_py_def with_sep_def stub_api_def stub_read_def ready_world_def
        idle_world_def gc_collect_def fs_defs)

theorem dask_read_metrics_witness:
  "fst (read_write_dask stub_api ''StudentsPerformance.csv'' ''./bench_results/tmp_dask_0.csv''
          ''utf-8'' '','' ready_world)
     = Inr [(''read_time_s'', PFloat (9 / 8)),
            (''write_time_s'', PFloat 2),
            (''read_mem_mb'', PFloat 80),
            (''write_mem_mb'', PFloat 110)]"
proof -
  let ?w2 = "gc_collect (gc_collect (ready_world\<lparr>now := 1 / 8\<rparr>)\<lparr>now := 9 / 8, rss := 115343360\<rparr>)"
  have wr: "measure_py (pd_to_csv stub_api ''a,b'' ''./bench_results/tmp_dask_0.csv'' None) ?w2
              = (Inr ((), 2, 110), gc_collect (snd (pd_to_csv stub_api ''a,b''
                   ''./bench_results/tmp_dask_0.csv'' None ?w2)))"
    by (simp add: measure_py_def stub_api_def stub_write_def ready_world_def idle_world_def
          gc_collect_def fs_defs)
  show ?thesis
    using dask_read_metrics [OF dask_stub_steps(1) dask_stub_steps(2) wr]
    by simp
qed

section \<open>The summary of a backend\<close>

lemma error_key_encode: "(map_of (encode x) ''error'' = None) = is_Sample x"
  by (cases x) (simp_all add: trial_sample_def trial_failure_def)

lemma filter_encode:
  "filter (\<lambda>r. map_of r ''error'' = None) (map encode xs) = map encode (filter is_Sample xs)"
  by (induction xs) (simp_all add: error_key_encode)

lemma column_samples:
  assumes "list_all is_Sample xs"
  shows "column ''read_time_s'' (map encode xs) = Inr (map (PFloat \<circ> read_time) xs)"
    and "column ''write_time_s'' (map encode xs) = Inr (map (PFloat \<circ> write_time) xs)"
    and "column ''read_mem_mb'' (map encode xs) = Inr (map (PFloat \<circ> read_mem) xs)"
    and "column ''write_mem_mb'' (map encode xs) = Inr (map (PFloat \<circ> write_mem) xs)"
  using assms
proof (induction xs)
  case Nil
  {
    case 1 show ?case by simp
  next
    case 2 show ?case by simp
  next
    case 3 show ?case by simp
  next
    case 4 show ?case by simp
  }
next
  case (Cons x xs)
  {
    case 1 then show ?case using Cons.IH(1)
      by (cases x) (simp_all add: bind_exn_def getitem_def trial_sample_def)
  next
    case 2 then show ?case using Cons.IH(2)
      by (cases x) (simp_all add: bind_exn_def getitem_def trial_sample_def)
  next
    case 3 then show ?case using Cons.IH(3)
      by (cases x) (simp_all add: bind_exn_def getitem_def trial_sample_def)
  next
    case 4 then show ?case using Cons.IH(4)
      by (cases x) (simp_all add: bind_exn_def getitem_def trial_sample_def)
  }
qed

lemma numbers_floats: "numbers (map (PFloat \<circ> f) xs) = Some (map f xs)"
  by (induction xs) simp_all

lemma mean_floats:
  assumes "xs \<noteq> []"
  shows "statistics_mean (map (PFloat \<circ> f) xs) = Inr (PFloat (mean_of (map f xs)))"
proof -
  obtain y ys where "xs = y # ys"
    using assms by (cases xs) auto
  then show ?thesis
    by (simp add: statistics_mean_def numbers_floats mean_of_def Let_def del: numbers.simps)
       (simp add: numbers_floats [of f ys, simplified])
qed

text \<open>
  C1: when at least one trial succeeded, each of the four metrics of the summary is the
  arithmetic mean of that metric over the successful trials alone, and \<^verbatim>\<open>runs_used\<close> is
  their number.
\<close>

theorem summarize_means_over_successes:
  assumes "filter is_Sample xs \<noteq> []"
  shows "summarize (map encode xs) =
           Inr [(''read_time_s'', PFloat (mean_of (map read_time (filter is_Sample xs)))),
                (''write_time_s'', PFloat (mean_of (map write_time (filter is_Sample xs)))),
                (''read_mem_mb'', PFloat (mean_of (map read_mem (filter is_Sample xs)))),
                (''write_mem_mb'', PFloat (mean_of (map write_mem (filter is_Sample xs)))),
                (''runs_used'', PInt (int (length (filter is_Sample xs))))]"
proof -
  let ?ok = "filter is_Sample xs"
  have all: "list_all is_Sample ?ok"
    by (simp add: list_all_iff)
  have ne: "map encode ?ok \<noteq> []"
    using assms by simp
  show ?thesis
    unfolding summarize_def Let_def filter_encode
    using ne assms
    by (simp add: column_samples [OF all] mean_floats [OF assms] bind_exn_def)
qed

theorem summarize_means_over_successes_witness:
  "summarize (map encode
      [Sample (1 / 10) 1 50 60, Failure ''ValueError()'', Sample (3 / 10) 3 70 80]) =
     Inr [(''read_time_s'', PFloat (1 / 5)),
          (''write_time_s'', PFloat 2),
          (''read_mem_mb'', PFloat 60),
          (''write_mem_mb'', PFloat 70),
          (''runs_used'', PInt 2)]"
  using summarize_means_over_successes
    [of "[Sample (1 / 10) 1 50 60, Failure ''ValueError()'', Sample (3 / 10) 3 70 80]"]
  by (simp add: mean_of_def)

text \<open>
  C5: when every trial failed, the summary is exactly \<^verbatim>\<open>{"error": "all runs failed"}\<close>,
  whatever the number of failures and their descriptions.
\<close>

theorem summarize_all_failed:
  assumes "\<forall>r \<in> set runs_data. map_of r ''error'' \<noteq> None"
  shows "summarize runs_data = Inr [(''error'', PStr ''all runs failed'')]"
proof -
  have "filter (\<lambda>r. map_of r ''error'' = None) runs_data = []"
    using assms by (simp add: filter_empty_conv)
  then show ?thesis
    by (simp add: summarize_def)
qed

theorem summarize_all_failed_witness:
  "summarize [trial_failure ''ValueError()'', trial_failure ''OSError(28)'',
      trial_failure ''ValueError()''] = Inr [(''error'', PStr ''all runs failed'')]
   \<and> map_of [(''error'', PStr ''all runs failed'')] ''read_time_s'' = None"
  using summarize_all_failed
    [of "[trial_failure ''ValueError()'', trial_failure ''OSError(28)'',
          trial_failure ''ValueError()'']"]
  by (simp add: trial_failure_def)

section \<open>The trial boundary\<close>

lemma temp_name_pandas_0: "temp_name ''./bench_results'' ''pandas'' 0 = ''./bench_results/tmp_pandas_0.csv''"
  by (simp add: temp_name_def os_path_join_def str_nat.simps digit_char_def)








lemma run_trial_records:
  assumes "lib_func (input_path cfg) (temp_name (outdir cfg) lib_name i) (encoding cfg) (sep cfg) w
             = (r, w1)"
    and "case r of Inl e \<Rightarrow> is_Exception e | Inr res \<Rightarrow> True"
  shows "run_trial lib_name lib_func cfg i w =
           (Inr (case r of Inr res \<Rightarrow> res | Inl e \<Rightarrow> trial_failure (repr e)),
            snd (cleanup (temp_name (outdir cfg) lib_name i) w1))"
proof -
  let ?tmp = "temp_name (outdir cfg) lib_name i"
  obtain w2 where cl: "cleanup ?tmp w1 = (Inr (), w2)"
    using cleanup_returns [of ?tmp w1] by (cases "cleanup ?tmp w1") auto
  show ?thesis
    using assms cl by (cases r) (simp_all add: run_trial_def)
qed

lemma cleanup_effect:
  "(node w (resolve w p) = None \<or> fst (os_remove p w) = Inr ()
      \<longrightarrow> node (snd (cleanup p w)) (resolve (snd (cleanup p w)) p) = None)
   \<and> (fst (os_remove p w) \<noteq> Inr () \<longrightarrow> snd (cleanup p w) = w)"
  by (auto simp: cleanup_def os_remove_def path_exists_def node_def resolve_def
        split: option.splits fnode.splits if_splits)




text \<open>
  C8, as stated, fails: when the removal itself fails (here the temp path is a
  directory) the failure is swallowed and the path is still there after the trial.
\<close>

theorem temp_path_survives_failed_removal:
  "fst (run_trial ''pandas'' (read_write_pandas stub_api) settings 0 blocked_world)
     = Inr (trial_failure ''IsADirectoryError()'')
   \<and> path_exists ''./bench_results/tmp_pandas_0.csv''
       (snd (run_trial ''pandas'' (read_write_pandas stub_api) settings 0 blocked_world))"
  by (simp add: run_trial_def temp_name_pandas_0 settings_def read_write_pandas_def
        measure_py_def with_sep_def stub_api_def stub_read_def stub_write_def blocked_world_def
        idle_world_def gc_collect_def cleanup_def fs_defs)

text \<open>
  C8, amended: after a trial whose adapter call returned or raised an \<^verbatim>\<open>Exception\<close>, the
  outcome recorded is the one of the call, whatever the removal did; the temp path does
  not exist afterwards when it did not exist before the removal or the removal
  succeeded; a failed removal leaves the world as the call left it.
\<close>

theorem cleanup_after_trial:
  assumes "lib_func (input_path cfg) (temp_name (outdir cfg) lib_name i) (encoding cfg) (sep cfg) w
             = (r, w1)"
    and "case r of Inl e \<Rightarrow> is_Exception e | Inr res \<Rightarrow> True"
  shows "fst (run_trial lib_name lib_func cfg i w)
           = Inr (case r of Inr res \<Rightarrow> res | Inl e \<Rightarrow> trial_failure (repr e))
         \<and> (node w1 (resolve w1 (temp_name (outdir cfg) lib_name i)) = None
              \<or> fst (os_remove (temp_name (outdir cfg) lib_name i) w1) = Inr ()
            \<longrightarrow> node (snd (run_trial lib_name lib_func cfg i w))
                  (resolve (snd (run_trial lib_name lib_func cfg i w))
                     (temp_name (outdir cfg) lib_name i)) = None)
         \<and> (fst (os_remove (temp_name (outdir cfg) lib_name i) w1) \<noteq> Inr ()
            \<longrightarrow> snd (run_trial lib_name lib_func cfg i w) = w1)"
  using assms run_trial_records [of lib_func cfg lib_name i w r w1]
    cleanup_effect [of w1 "temp_name (outdir cfg) lib_name i"]
  by simp

theorem cleanup_after_trial_witness:
  "fst (run_trial ''pandas'' (read_write_pandas stub_api) settings 0 ready_world)
     = Inr (trial_sample 1 2 50 50)
   \<and> node (snd (run_trial ''pandas'' (read_write_pandas stub_api) settings 0 ready_world))
        [''srv'', ''bench_results'', ''tmp_pandas_0.csv''] = None"
proof -
  let ?call = "read_write_pandas stub_api (input_path settings)
                 (temp_name (outdir settings) ''pandas'' 0) (encoding settings) (sep settings)
                 ready_world"
  have call: "?call = (fst ?call, snd ?call)"
    by simp
  have res: "fst ?call = Inr (trial_sample 1 2 50 50)"
    by (simp add: temp_name_pandas_0 settings_def read_write_pandas_def measure_py_def
          with_sep_def stub_api_def stub_read_def stub_write_def ready_world_def idle_world_def
          gc_collect_def fs_defs)
  have rm: "fst (os_remove (temp_name (outdir settings) ''pandas'' 0) (snd ?call)) = Inr ()"
    by (simp add: temp_name_pandas_0 settings_def read_write_pandas_def measure_py_def
          with_sep_def stub_api_def stub_read_def stub_write_def ready_world_def idle_world_def
          gc_collect_def fs_defs)
  have dir: "cwd (snd (run_trial ''pandas'' (read_write_pandas stub_api) settings 0 ready_world))
               = [''srv'']"
    by (simp add: run_trial_def temp_name_pandas_0 settings_def read_write_pandas_def
          measure_py_def with_sep_def stub_api_def stub_read_def stub_write_def ready_world_def
          idle_world_def gc_collect_def cleanup_def fs_defs)
  show ?thesis
    using cleanup_after_trial [of "read_write_pandas stub_api" settings "''pandas''" 0 ready_world
        "fst ?call" "snd ?call"] call res rm dir
    by (simp add: temp_name_pandas_0 settings_def resolve_def resolve_samples)
qed

section \<open>The run of \<^verbatim>\<open>main\<close>\<close>







lemma mkdirs_result:
  assumes "mkdirs f pre cs = Inr f'"
  shows "(cs \<noteq> [] \<longrightarrow> f' (pre @ cs) = Some Directory) \<and> (\<forall>k. f k \<noteq> None \<longrightarrow> f' k = f k)"
  using assms
proof (induction cs arbitrary: f pre)
  case Nil
  then show ?case by simp
next
  case (Cons c cs)
  let ?k = "pre @ [c]"
  let ?f1 = "if f ?k = None then f(?k \<mapsto> Directory) else f"
  have step: "mkdirs ?f1 ?k cs = Inr f'" and here: "?f1 ?k = Some Directory"
    using Cons.prems by (auto split: option.splits fnode.splits)
  have old: "\<forall>k. f k \<noteq> None \<longrightarrow> ?f1 k = f k"
    by auto
  have ih: "(cs \<noteq> [] \<longrightarrow> f' (?k @ cs) = Some Directory) \<and> (\<forall>k. ?f1 k \<noteq> None \<longrightarrow> f' k = ?f1 k)"
    using Cons.IH [OF step] .
  have "f' (pre @ c # cs) = Some Directory"
  proof (cases "cs = []")
    case True
    then have "f' = ?f1"
      using step by simp
    then show ?thesis
      using here True by simp
  next
    case False
    then show ?thesis
      using ih by simp
  qed
  moreover have "\<forall>k. f k \<noteq> None \<longrightarrow> f' k = f k"
    using ih old by (metis option.distinct(1))
  ultimately show ?case by simp
qed

lemma os_makedirs_result:
  assumes "os_makedirs p w = (Inr (), w1)"
  shows "p \<noteq> []" and "cwd w1 = cwd w" and "now w1 = now w" and "rss w1 = rss w"
    and "garbage w1 = garbage w" and "gc_runs w1 = gc_runs w"
    and "node w1 (resolve w p) = Some Directory"
    and "\<And>k. node w k \<noteq> None \<Longrightarrow> node w1 k = node w k"
proof -
  show ne: "p \<noteq> []"
    using assms by (auto simp: os_makedirs_def split: if_splits)
  obtain f where mk: "mkdirs (fs w) [] (resolve w p) = Inr f" and w1: "w1 = w\<lparr>fs := f\<rparr>"
    using assms ne by (auto simp: os_makedirs_def split: sum.splits)
  show "cwd w1 = cwd w" "now w1 = now w" "rss w1 = rss w" "garbage w1 = garbage w"
    "gc_runs w1 = gc_runs w"
    using w1 by simp_all
  show "node w1 (resolve w p) = Some Directory"
    using mkdirs_result [OF mk] w1 by (simp add: node_def)
  show "node w1 k = node w k" if "node w k \<noteq> None" for k
    using that mkdirs_result [OF mk] w1 by (auto simp: node_def split: if_splits)
qed





lemma set_lib_step:
  assumes "bind_exn (summarize rd)
             (set_lib [(''input'', a), (''runs'', b), (''separator'', c), (''libs'', PDict ls)]
                lib_name) = Inr r'"
  shows "\<exists>s. summarize rd = Inr s
           \<and> r' = [(''input'', a), (''runs'', b), (''separator'', c),
                    (''libs'', PDict (AList.update lib_name (PDict s) ls))]"
  using assms by (cases "summarize rd") (auto simp: bind_exn_def set_lib_def)

lemma run_trials_length:
  "run_trials lib_name f cfg idx acc w = (Inr runs_data, w1)
     \<Longrightarrow> length runs_data = length acc + length idx"
proof (induction idx arbitrary: acc w)
  case Nil
  then show ?case by simp
next
  case (Cons i idx)
  then show ?case
    by (cases "run_trial lib_name f cfg i w") (auto split: sum.splits)
qed

lemma bench_libs_report:
  assumes "bench_libs (libs_of lib) cfg
             [(''input'', a), (''runs'', b), (''separator'', c), (''libs'', PDict [])] w
           = (Inr results', w')"
  shows "\<exists>w1 w2 s1 s2 s3.
           backend_summary ''pandas'' (read_write_pandas lib) cfg w s1 w1
         \<and> backend_summary ''polars'' (read_write_polars lib) cfg w1 s2 w2
         \<and> backend_summary ''dask'' (read_write_dask lib) cfg w2 s3 w'
         \<and> results' =
           [(''input'', a), (''runs'', b), (''separator'', c),
            (''libs'', PDict [(''pandas'', PDict s1), (''polars'', PDict s2),
                              (''dask'', PDict s3)])]"
proof -
  let ?r0 = "[(''input'', a), (''runs'', b), (''separator'', c), (''libs'', PDict [])]"
  have len: "length rd = nat (max 1 (runs cfg))"
    if "run_trials n f cfg (trial_range cfg) [] v = (Inr rd, v')" for n f v rd v'
    using run_trials_length [OF that] by (simp add: trial_range_def)
  obtain rd1 w1 r1 where
    t1: "run_trials ''pandas'' (read_write_pandas lib) cfg (trial_range cfg) [] w = (Inr rd1, w1)"
    and s1: "bind_exn (summarize rd1) (set_lib ?r0 ''pandas'') = Inr r1"
    and b1: "bench_libs [(''polars'', read_write_polars lib), (''dask'', read_write_dask lib)]
               cfg r1 w1 = (Inr results', w')"
    using assms by (auto simp: libs_of_def split: prod.splits sum.splits)
  obtain x1 where x1: "summarize rd1 = Inr x1"
    and r1: "r1 = [(''input'', a), (''runs'', b), (''separator'', c),
                   (''libs'', PDict [(''pandas'', PDict x1)])]"
    using set_lib_step [OF s1] by auto
  obtain rd2 w2 r2 where
    t2: "run_trials ''polars'' (read_write_polars lib) cfg (trial_range cfg) [] w1 = (Inr rd2, w2)"
    and s2: "bind_exn (summarize rd2) (set_lib r1 ''polars'') = Inr r2"
    and b2: "bench_libs [(''dask'', read_write_dask lib)] cfg r2 w2 = (Inr results', w')"
    using b1 by (auto split: prod.splits sum.splits)
  obtain x2 where x2: "summarize rd2 = Inr x2"
    and r2: "r2 = [(''input'', a), (''runs'', b), (''separator'', c),
                   (''libs'', PDict [(''pandas'', PDict x1), (''polars'', PDict x2)])]"
    using set_lib_step [OF s2 [unfolded r1]] by auto
  obtain rd3 where
    t3: "run_trials ''dask'' (read_write_dask lib) cfg (trial_range cfg) [] w2 = (Inr rd3, w')"
    and s3: "bind_exn (summarize rd3) (set_lib r2 ''dask'') = Inr results'"
    using b2 by (auto split: prod.splits sum.splits)
  obtain x3 where x3: "summarize rd3 = Inr x3"
    and r3: "results' = [(''input'', a), (''runs'', b), (''separator'', c),
      (''libs'', PDict [(''pandas'', PDict x1), (''polars'', PDict x2), (''dask'', PDict x3)])]"
    using set_lib_step [OF s3 [unfolded r2]] by auto
  have "backend_summary ''pandas'' (read_write_pandas lib) cfg w x1 w1"
    using t1 x1 len [OF t1] unfolding backend_summary_def by blast
  moreover have "backend_summary ''polars'' (read_write_polars lib) cfg w1 x2 w2"
    using t2 x2 len [OF t2] unfolding backend_summary_def by blast
  moreover have "backend_summary ''dask'' (read_write_dask lib) cfg w2 x3 w'"
    using t3 x3 len [OF t3] unfolding backend_summary_def by blast
  ultimately show ?thesis
    using r3 by blast
qed

lemma write_json_ok:
  assumes "write_json p v w = (Inr (), w')"
  shows "w' = w\<lparr>fs := (fs w)(resolve w p \<mapsto> JsonFile v)\<rparr>" and "resolve w p \<noteq> []"
  using assms
  by (auto simp: write_json_def open_write_def split: if_splits option.splits fnode.splits)

lemma main_completed:
  assumes "main_with lib cfg w = (Inr rc, w')"
    and "os_makedirs (outdir cfg) w = (Inr (), w1)"
    and "Path_exists (input_path cfg) w1"
  shows "rc = 0 \<and> (\<exists>w2 w3 w4 s1 s2 s3.
           backend_summary ''pandas'' (read_write_pandas lib) cfg w1 s1 w2
         \<and> backend_summary ''polars'' (read_write_polars lib) cfg w2 s2 w3
         \<and> backend_summary ''dask'' (read_write_dask lib) cfg w3 s3 w4
         \<and> resolve w4 (result_filename cfg) \<noteq> []
         \<and> w' = w4\<lparr>fs := (fs w4)(resolve w4 (result_filename cfg) \<mapsto> JsonFile (PDict
             [(''input'', PStr (input_path cfg)), (''runs'', PInt (runs cfg)),
              (''separator'', PStr (sep cfg)),
              (''libs'', PDict [(''pandas'', PDict s1), (''polars'', PDict s2),
                                (''dask'', PDict s3)])]))\<rparr>)"
proof -
  let ?r0 = "[(''input'', PStr (input_path cfg)), (''runs'', PInt (runs cfg)),
              (''separator'', PStr (sep cfg)), (''libs'', PDict [])]"
  obtain results' w4 where
    bl: "bench_libs (libs_of lib) cfg ?r0 w1 = (Inr results', w4)"
    and wr: "write_json (result_filename cfg) (PDict results') w4 = (Inr (), w')"
    and rc: "rc = 0"
    using assms
    by (auto simp: main_with_def Let_def split: prod.splits sum.splits)
  show ?thesis
    using bench_libs_report [OF bl] write_json_ok [OF wr] rc by blast
qed

lemma Path_exists_kept:
  assumes "os_makedirs p w = (Inr (), w1)" and "Path_exists q w"
  shows "Path_exists q w1"
  using assms(2) os_makedirs_result(2,8) [OF assms(1)]
  by (simp add: Path_exists_def resolve_def)

lemma polite_with_sep: "polite I c \<Longrightarrow> polite I (with_sep c s)"
  unfolding polite_def with_sep_def
  by (auto split: prod.splits sum.splits) (metis fst_conv snd_conv sum.case)+

lemma encoded_failure: "\<exists>x. trial_failure s = encode x"
  by (rule exI [of _ "Failure s"]) simp

lemma encoded_sample: "\<exists>x. trial_sample a b c d = encode x"
  by (rule exI [of _ "Sample a b c d"]) simp

lemma measure_py_returns:
  assumes "func w = (Inr res, w1)"
  shows "measure_py func w =
           (Inr (res, now w1 - now w, (of_nat (rss w) + of_nat (rss w1)) / 2 / 1048576),
            gc_collect w1)"
  using assms by (simp add: measure_py_def)

lemma measured:
  assumes "polite I m" and "stable I"
  shows "(\<exists>s w1. measure_py m w = (Inl (Exception s), w1)
            \<and> (I w \<longrightarrow> I w1))
         \<or> (\<exists>v t mem w1. measure_py m w = (Inr (v, t, mem), w1)
            \<and> (I w \<longrightarrow> I w1))"
proof (cases "fst (m w)")
  case (Inl e)
  then have "is_Exception e"
    using assms(1) unfolding polite_def by (metis sum.case(1))
  then obtain s where "e = Exception s"
    by (cases e) auto
  then have "measure_py m w = (Inl (Exception s), snd (m w))"
    using Inl by (cases "m w") (simp add: measure_py_def)
  then show ?thesis
    using assms(1) unfolding polite_def by auto
next
  case (Inr v)
  then have "m w = (Inr v, snd (m w))"
    by (cases "m w") simp
  then have "\<exists>t mem. measure_py m w = (Inr (v, t, mem), gc_collect (snd (m w)))"
    using measure_py_returns [of m w v "snd (m w)"] by blast
  moreover have "I (snd (m w)) \<longrightarrow> I (gc_collect (snd (m w)))"
    using assms(2) unfolding stable_def by blast
  ultimately show ?thesis
    using assms(1) unfolding polite_def by auto
qed

lemma steady_pandas:
  assumes "tame I lib" and st: "stable I"
  shows "steady I (read_write_pandas lib)"
  unfolding steady_def
proof (intro allI)
  fix a b c d w
  have p1: "polite I (with_sep (pd_read_csv lib a d c) d)"
    using assms(1) by (simp add: tame_def polite_with_sep)
  have p2: "\<And>df. polite I (pd_to_csv lib df b (Some c))"
    using assms(1) by (simp add: tame_def)
  let ?goal = "(\<exists>x. fst (read_write_pandas lib a b c d w) = Inr (encode x))
        \<and> (I w \<longrightarrow> I (snd (read_write_pandas lib a b c d w)))"
  from measured [OF p1 st, of w] show ?goal
  proof (elim disjE exE conjE)
    fix s w1
    assume "measure_py (with_sep (pd_read_csv lib a d c) d) w = (Inl (Exception s), w1)"
      and "I w \<longrightarrow> I w1"
    then show ?goal
      by (simp add: read_write_pandas_def encoded_failure)
  next
    fix v t_read mem_read w1
    assume m1: "measure_py (with_sep (pd_read_csv lib a d c) d) w = (Inr (v, t_read, mem_read), w1)"
      and f1: "I w \<longrightarrow> I w1"
    obtain df sp where v: "v = (df, sp)"
      by (cases v) auto
    from measured [OF p2 [of df] st, of w1] show ?goal
      using m1 f1 v
      by (elim disjE exE conjE)
         (simp_all add: read_write_pandas_def encoded_failure encoded_sample)
  qed
qed

lemma steady_polars:
  assumes "tame I lib" and st: "stable I"
  shows "steady I (read_write_polars lib)"
  unfolding steady_def
proof (intro allI)
  fix a b c d w
  have p1: "polite I (with_sep (pl_read_csv lib a d c) d)"
    using assms(1) by (simp add: tame_def polite_with_sep)
  have p2: "\<And>df. polite I (pl_write_csv lib df b)"
    using assms(1) by (simp add: tame_def)
  let ?goal = "(\<exists>x. fst (read_write_polars lib a b c d w) = Inr (encode x))
        \<and> (I w \<longrightarrow> I (snd (read_write_polars lib a b c d w)))"
  from measured [OF p1 st, of w] show ?goal
  proof (elim disjE exE conjE)
    fix s w1
    assume "measure_py (with_sep (pl_read_csv lib a d c) d) w = (Inl (Exception s), w1)"
      and "I w \<longrightarrow> I w1"
    then show ?goal
      by (simp add: read_write_polars_def encoded_failure)
  next
    fix v t_read mem_read w1
    assume m1: "measure_py (with_sep (pl_read_csv lib a d c) d) w = (Inr (v, t_read, mem_read), w1)"
      and f1: "I w \<longrightarrow> I w1"
    obtain df sp where v: "v = (df, sp)"
      by (cases v) auto
    from measured [OF p2 [of df] st, of w1] show ?goal
      using m1 f1 v
      by (elim disjE exE conjE)
         (simp_all add: read_write_polars_def encoded_failure encoded_sample)
  qed
qed

lemma steady_dask:
  assumes "tame I lib" and st: "stable I"
  shows "steady I (read_write_dask lib)"
  unfolding steady_def
proof (intro allI)
  fix a b c d w
  have p1: "polite I (with_sep (dd_read_csv lib a d c) d)"
    using assms(1) by (simp add: tame_def polite_with_sep)
  have p2: "\<And>ddf. polite I (dd_compute lib ddf)"
    using assms(1) by (simp add: tame_def)
  have p3: "\<And>pdf. polite I (pd_to_csv lib pdf b None)"
    using assms(1) by (simp add: tame_def)
  let ?goal = "(\<exists>x. fst (read_write_dask lib a b c d w) = Inr (encode x))
        \<and> (I w \<longrightarrow> I (snd (read_write_dask lib a b c d w)))"
  from measured [OF p1 st, of w] show ?goal
  proof (elim disjE exE conjE)
    fix s w1
    assume "measure_py (with_sep (dd_read_csv lib a d c) d) w = (Inl (Exception s), w1)"
      and "I w \<longrightarrow> I w1"
    then show ?goal
      by (simp add: read_write_dask_def encoded_failure)
  next
    fix v t_lazy mem_lazy w1
    assume m1: "measure_py (with_sep (dd_read_csv lib a d c) d) w = (Inr (v, t_lazy, mem_lazy), w1)"
      and f1: "I w \<longrightarrow> I w1"
    obtain ddf sp where v: "v = (ddf, sp)"
      by (cases v) auto
    from measured [OF p2 [of ddf] st, of w1] show ?goal
    proof (elim disjE exE conjE)
      fix s w2
      assume "measure_py (dd_compute lib ddf) w1 = (Inl (Exception s), w2)"
        and "I w1 \<longrightarrow> I w2"
      then show ?goal
        using m1 f1 v by (simp add: read_write_dask_def encoded_failure)
    next
      fix pdf t_compute mem_compute w2
      assume m2: "measure_py (dd_compute lib ddf) w1 = (Inr (pdf, t_compute, mem_compute), w2)"
        and f2: "I w1 \<longrightarrow> I w2"
      from measured [OF p3 [of pdf] st, of w2] show ?goal
        using m1 f1 v m2 f2
        by (elim disjE exE conjE)
           (simp_all add: read_write_dask_def encoded_failure encoded_sample)
    qed
  qed
qed

lemma run_trial_steady:
  assumes "steady I f" and "stable I"
  shows "\<exists>x w1. run_trial lib_name f cfg i w = (Inr (encode x), w1)
           \<and> (I w \<longrightarrow> I w1)"
proof -
  let ?tmp = "temp_name (outdir cfg) lib_name i"
  let ?call = "f (input_path cfg) ?tmp (encoding cfg) (sep cfg) w"
  obtain x where x: "fst ?call = Inr (encode x)"
    using assms(1) unfolding steady_def by blast
  have keep: "I w \<longrightarrow> I (snd ?call)"
    using assms(1) unfolding steady_def by blast
  have clean: "I (snd ?call) \<longrightarrow> I (snd (cleanup ?tmp (snd ?call)))"
    using assms(2) unfolding stable_def by blast
  have "?call = (Inr (encode x), snd ?call)"
    using x by (cases ?call) simp
  then have "run_trial lib_name f cfg i w = (Inr (encode x), snd (cleanup ?tmp (snd ?call)))"
    using run_trial_records [of f cfg lib_name i w "Inr (encode x)" "snd ?call"] by simp
  then show ?thesis
    using keep clean by auto
qed

lemma run_trials_steady:
  assumes "steady I f" and "stable I"
  shows "\<exists>xs w1. run_trials lib_name f cfg idx runs_data w = (Inr (runs_data @ map encode xs), w1)
           \<and> length xs = length idx
           \<and> (I w \<longrightarrow> I w1)"
proof (induction idx arbitrary: runs_data w)
  case Nil
  show ?case
    by (rule exI [of _ "[]"]) simp
next
  case (Cons i idx)
  obtain x w1 where step: "run_trial lib_name f cfg i w = (Inr (encode x), w1)"
    and keep1: "I w \<longrightarrow> I w1"
    using run_trial_steady [OF assms] by blast
  obtain xs w2 where rest: "run_trials lib_name f cfg idx (runs_data @ [encode x]) w1
                              = (Inr ((runs_data @ [encode x]) @ map encode xs), w2)"
    and len: "length xs = length idx"
    and keep2: "I w1 \<longrightarrow> I w2"
    using Cons.IH by blast
  have "run_trials lib_name f cfg (i # idx) runs_data w
          = (Inr (runs_data @ map encode (x # xs)), w2)"
    using step rest by simp
  moreover have "length (x # xs) = length (i # idx)"
    using len by simp
  ultimately show ?case
    using keep1 keep2 by blast
qed



lemma stable_anything: "stable anything"
  by (simp add: stable_def anything_def)


lemma steady_libs:
  assumes "tame I lib" and "stable I" and "(lib_name, f) \<in> set (libs_of lib)"
  shows "steady I f"
  using assms steady_pandas steady_polars steady_dask
  by (auto simp: libs_of_def)








lemma tame_stub_anything: "tame anything stub_api"
  by (auto simp: tame_def polite_def anything_def stub_api_def stub_read_def stub_write_def
        open_write_def split: option.splits fnode.splits if_splits)

lemmas run_defs =
  main_with_def settings_def data_world_def idle_world_def os_makedirs_def
  Path_exists_def libs_of_def trial_range_def run_trial_def temp_name_def os_path_join_def
  str_nat.simps digit_char_def read_write_pandas_def read_write_polars_def read_write_dask_def
  measure_py_def with_sep_def stub_api_def stub_read_def stub_write_def gc_collect_def
  cleanup_def summarize_def bind_exn_def getitem_def statistics_mean_def
  trial_sample_def trial_failure_def set_lib_def write_json_def result_filename_def
  error_report_def fs_defs




lemma makedirs_unreadable:
  "os_makedirs ''./bench_results'' unreadable_world =
     (Inr (), unreadable_world\<lparr>fs := [[''srv''] \<mapsto> Directory,
        [''srv'', ''StudentsPerformance.csv''] \<mapsto> Directory,
        [''srv'', ''bench_results''] \<mapsto> Directory]\<rparr>)"
  by (simp add: os_makedirs_def unreadable_world_def idle_world_def fs_defs)




text \<open>
  C4, as stated, fails: with \<^verbatim>\<open>runs = 0\<close> every backend runs one trial
  (\<^verbatim>\<open>runs_used\<close> is 1), and the report echoes \<^verbatim>\<open>"runs": 0\<close>, the value as configured.
\<close>

theorem report_echoes_unclamped_runs:
  "fst (main_with stub_api (settings\<lparr>runs := 0\<rparr>) data_world) = Inr 0 \<and>
   fs (snd (main_with stub_api (settings\<lparr>runs := 0\<rparr>) data_world))
      [''srv'', ''bench_results'', ''bench_result.json''] =
     Some (JsonFile (PDict
       [(''input'', PStr ''StudentsPerformance.csv''),
        (''runs'', PInt 0),
        (''separator'', PStr '',''),
        (''libs'', PDict
          [(''pandas'', PDict [(''read_time_s'', PFloat 1), (''write_time_s'', PFloat 2),
              (''read_mem_mb'', PFloat 50), (''write_mem_mb'', PFloat 50),
              (''runs_used'', PInt 1)]),
           (''polars'', PDict [(''read_time_s'', PFloat (1 / 4)), (''write_time_s'', PFloat (1 / 2)),
              (''read_mem_mb'', PFloat 50), (''write_mem_mb'', PFloat 50),
              (''runs_used'', PInt 1)]),
           (''dask'', PDict [(''read_time_s'', PFloat (9 / 8)), (''write_time_s'', PFloat 2),
              (''read_mem_mb'', PFloat 80), (''write_mem_mb'', PFloat 110),
              (''runs_used'', PInt 1)])])]))"
  by (simp add: run_defs)

text \<open>
  C4, amended: the loop of each backend runs over \<open>max 1 runs\<close> indices, at least one,
  and a loop that completes has recorded that many outcomes (it does complete for
  libraries that raise only \<^verbatim>\<open>Exception\<close>s); the \<^verbatim>\<open>runs\<close> entry of the report is the
  configured value itself, not the clamped one.
\<close>

theorem trials_clamped_report_echoes_runs:
  "length (trial_range cfg) = nat (max 1 (runs cfg))
   \<and> 1 \<le> length (trial_range cfg)
   \<and> (run_trials lib_name f cfg (trial_range cfg) [] w = (Inr runs_data, w1)
        \<longrightarrow> length runs_data = nat (max 1 (runs cfg)))
   \<and> (tame anything lib \<and> (lib_name, f) \<in> set (libs_of lib)
        \<longrightarrow> (\<exists>rd w2. run_trials lib_name f cfg (trial_range cfg) [] w = (Inr rd, w2)))
   \<and> (Path_exists (input_path cfg) w \<and> main_with lib cfg w = (Inr rc, w')
        \<longrightarrow> (\<exists>r. node w' (resolve w' (result_filename cfg)) = Some (JsonFile (PDict r))
                 \<and> map_of r ''runs'' = Some (PInt (runs cfg))))"
proof (intro conjI impI)
  show len: "length (trial_range cfg) = nat (max 1 (runs cfg))"
    by (simp add: trial_range_def)
  show "1 \<le> length (trial_range cfg)"
    by (simp add: trial_range_def)
  show "length runs_data = nat (max 1 (runs cfg))"
    if "run_trials lib_name f cfg (trial_range cfg) [] w = (Inr runs_data, w1)"
    using run_trials_length [OF that] len by simp
  show "\<exists>rd w2. run_trials lib_name f cfg (trial_range cfg) [] w = (Inr rd, w2)"
    if "tame anything lib \<and> (lib_name, f) \<in> set (libs_of lib)"
  proof -
    have "steady anything f"
      using that steady_libs [of anything lib lib_name f] stable_anything by blast
    then show ?thesis
      using run_trials_steady [of anything f lib_name cfg "trial_range cfg" "[]" w]
        stable_anything by blast
  qed
  show "\<exists>r. node w' (resolve w' (result_filename cfg)) = Some (JsonFile (PDict r))
          \<and> map_of r ''runs'' = Some (PInt (runs cfg))"
    if fin: "Path_exists (input_path cfg) w \<and> main_with lib cfg w = (Inr rc, w')"
  proof -
    have run: "main_with lib cfg w = (Inr rc, w')" and inp: "Path_exists (input_path cfg) w"
      using fin by simp_all
    obtain w0 where mk: "os_makedirs (outdir cfg) w = (Inr (), w0)"
      using run by (auto simp: main_with_def split: prod.splits sum.splits)
    have inp0: "Path_exists (input_path cfg) w0"
      using Path_exists_kept [OF mk inp] .
    from main_completed [OF run mk inp0]
    obtain w4 s1 s2 s3 where key: "resolve w4 (result_filename cfg) \<noteq> []"
      and fin': "w' = w4\<lparr>fs := (fs w4)(resolve w4 (result_filename cfg) \<mapsto> JsonFile (PDict
             [(''input'', PStr (input_path cfg)), (''runs'', PInt (runs cfg)),
              (''separator'', PStr (sep cfg)),
              (''libs'', PDict [(''pandas'', PDict s1), (''polars'', PDict s2),
                                (''dask'', PDict s3)])]))\<rparr>"
      by (elim conjE exE)
    have same: "resolve w' (result_filename cfg) = resolve w4 (result_filename cfg)"
      using fin' by (simp add: resolve_def)
    have "node w' (resolve w' (result_filename cfg)) = Some (JsonFile (PDict
             [(''input'', PStr (input_path cfg)), (''runs'', PInt (runs cfg)),
              (''separator'', PStr (sep cfg)),
              (''libs'', PDict [(''pandas'', PDict s1), (''polars'', PDict s2),
                                (''dask'', PDict s3)])]))"
      unfolding same using key by (subst fin') (simp add: node_def)
    then show ?thesis by simp
  qed
qed

theorem trials_clamped_report_echoes_runs_witness:
  "length (trial_range (settings\<lparr>runs := - 3\<rparr>)) = 1
   \<and> (\<exists>rd w2. run_trials ''dask'' (read_write_dask stub_api) (settings\<lparr>runs := - 3\<rparr>)
          (trial_range (settings\<lparr>runs := - 3\<rparr>)) [] data_world = (Inr rd, w2) \<and> length rd = 1)
   \<and> (\<exists>r. node (snd (main_with stub_api (settings\<lparr>runs := - 3\<rparr>) data_world))
             [''srv'', ''bench_results'', ''bench_result.json''] = Some (JsonFile (PDict r))
          \<and> map_of r ''runs'' = Some (PInt (- 3)))"
proof -
  let ?cfg = "settings\<lparr>runs := - 3\<rparr>"
  let ?run = "main_with stub_api ?cfg data_world"
  have ev: "fst ?run = Inr 0 \<and> cwd (snd ?run) = [''srv'']"
    by (simp add: run_defs)
  have run: "?run = (Inr 0, snd ?run)"
    using ev by (cases ?run) simp
  have inp: "Path_exists (input_path ?cfg) data_world"
    by (simp add: settings_def data_world_def idle_world_def Path_exists_def fs_defs)
  have key: "resolve (snd ?run) (result_filename ?cfg)
               = [''srv'', ''bench_results'', ''bench_result.json'']"
    using ev by (simp add: settings_def result_filename_def os_path_join_def fs_defs)
  have mem: "(''dask'', read_write_dask stub_api) \<in> set (libs_of stub_api)"
    by (simp add: libs_of_def)
  note t = trials_clamped_report_echoes_runs
    [of ?cfg "''dask''" "read_write_dask stub_api" data_world _ _ stub_api 0 "snd ?run"]
  have one: "length (trial_range ?cfg) = 1"
    using t by (simp add: settings_def)
  have "\<exists>rd w3. run_trials ''dask'' (read_write_dask stub_api) ?cfg (trial_range ?cfg) []
      data_world = (Inr rd, w3)"
    using t tame_stub_anything mem by blast
  then obtain rd w3 where loop: "run_trials ''dask'' (read_write_dask stub_api) ?cfg
      (trial_range ?cfg) [] data_world = (Inr rd, w3)"
    by blast
  have "length rd = 1"
    using trials_clamped_report_echoes_runs
      [of ?cfg "''dask''" "read_write_dask stub_api" data_world rd w3 stub_api 0 "snd ?run"]
      loop by (simp add: settings_def)
  then have "\<exists>rd w3. run_trials ''dask'' (read_write_dask stub_api) ?cfg (trial_range ?cfg) []
      data_world = (Inr rd, w3) \<and> length rd = 1"
    using loop by blast
  moreover have "\<exists>r. node (snd ?run) [''srv'', ''bench_results'', ''bench_result.json'']
             = Some (JsonFile (PDict r))
          \<and> map_of r ''runs'' = Some (PInt (- 3))"
    using t run inp key by (simp add: settings_def)
  ultimately show ?thesis
    using one by blast
qed

end
